theory Spec2Isabelle
  imports Main
begin

section \<open>Python values shared by the two agent nodes\<close>

text \<open>
  Both nodes are Python coroutines that receive a conversation state, call a hosted
  language model once and return the state.  The embedding makes three things explicit:
  \<^item> an exception is a value of \<open>exn\<close>;
  \<^item> the state object is mutated in place, so a run reports the contents of that object
    when the node stops (\<open>final\<close>), whether it returned or raised (\<open>raised\<close>);
  \<^item> the model service is outside the repository, so it is a parameter of the node, and
    every invocation the node makes is recorded in \<open>calls\<close>.
  A string is a list of code points below 256.  The \<open>print\<close> statements of the translator and the
  \<open>copilotkit_customize_config\<close> call only affect the console and the streaming
  configuration; they are left out.
\<close>

datatype exn =
    ValueError string
  | IndexError string
  | AttributeError string
  | ValidationError string
  | ModelError string

record ('s, 'q) run =
  raised :: "exn option"
  final :: 's
  calls :: "'q list"

text \<open>
  A tool call of \<open>langchain_core\<close> is a dict with the keys \<open>name\<close>, \<open>args\<close> and
  \<open>id\<close>.  The translator reads \<open>args\<close> with \<open>.get("args", {})\<close>, so that key may
  be absent; \<open>id\<close> is a text or \<open>None\<close>.
\<close>

record tool_call =
  name :: string
  args :: "(string \<rightharpoonup> string) option"
  call_id :: "string option"

datatype message =
    is_HumanMessage: HumanMessage (content: string)
  | is_SystemMessage: SystemMessage (content: string)
  | is_AIMessage: AIMessage (content: string) "tool_call list"
  | is_ToolMessage: ToolMessage (content: string) string

record MessagesState =
  messages :: "message list"

definition nl :: string where
  "nl = [CHR 0x0A]"

subsection \<open>\<open>str.lower\<close> and \<open>str.strip\<close>\<close>

text \<open>
  A character is a code point below 256.  In that range \<open>str.lower\<close> maps A to Z and
  the capital letters from U+00C0 to U+00DE, the sign U+00D7 apart, to the code point 32
  above, and \<open>str.strip\<close> removes the white space of \<open>str.isspace\<close>: U+0009 to
  U+000D, U+001C to U+0020, U+0085 and U+00A0.
\<close>

definition lower_char :: "char \<Rightarrow> char" where
  "lower_char c =
     (let n = (of_char c :: nat) in
      if (65 \<le> n \<and> n \<le> 90) \<or> (192 \<le> n \<and> n \<le> 222 \<and> n \<noteq> 215) then char_of (n + 32)
      else c)"

definition lower :: "string \<Rightarrow> string" where
  "lower s = map lower_char s"

definition isspace :: "char \<Rightarrow> bool" where
  "isspace c =
     ((of_char c :: nat) \<in> {9, 10, 11, 12, 13, 28, 29, 30, 31, 32, 133, 160})"

definition strip :: "string \<Rightarrow> string" where
  "strip s = rev (dropWhile isspace (rev (dropWhile isspace s)))"

section \<open>The step summarizer: \<open>ai_researcher/extract.py\<close>\<close>

text \<open>
  Modelled from the spec: the declarations of \<open>Step\<close> and \<open>AgentState\<close> in
  \<open>ai_researcher/state.py\<close> are not part of the sources at hand.  A step has the fields
  the spec lists.  \<open>type\<close> and \<open>updates\<close> are read with \<open>.get\<close>, so they may be
  absent (\<open>None\<close>); \<open>status\<close> is read by subscript and is always there; \<open>result\<close> and
  \<open>search_result\<close> are a text or Python's \<open>None\<close>.  The steps of a state are distinct
  objects.
\<close>

record step =
  step_id :: string
  step_type :: "string option"
  status :: string
  result :: "string option"
  search_result :: "string option"
  updates :: "string list option"

record ResearchState = MessagesState +
  steps :: "step list"

text \<open>
  \<open>next((step for step in state["steps"] if step["status"] == "pending"), None)\<close>:
  the position of the first pending step, scanning from the front.
\<close>

fun first_pending :: "step list \<Rightarrow> nat option" where
  "first_pending [] = None"
| "first_pending (s # ss) =
     (if status s = ''pending'' then Some 0 else map_option Suc (first_pending ss))"

text \<open>
  The prompt of the summarizer.  \<open>json.dumps\<close> is the standard library's and stays a
  parameter.
\<close>

definition system_message :: "(step \<Rightarrow> string) \<Rightarrow> step \<Rightarrow> string" where
  "system_message json_dumps current_step =
     nl @ ''This step was just executed: '' @ json_dumps current_step @ nl
     @ nl
     @ ''This is the result of the search:'' @ nl
     @ nl
     @ ''Please summarize ONLY the result of the search and include all relevant information from the search and reference links.'' @ nl
     @ ''DO NOT INCLUDE ANY EXTRA INFORMATION. ALL OF THE INFORMATION YOU ARE LOOKING FOR IS IN THE SEARCH RESULTS.'' @ nl
     @ nl
     @ ''DO NOT answer the user's query yet. Just summarize the search results.'' @ nl
     @ nl
     @ ''Use markdown formatting and put the references inline and the links at the end.'' @ nl
     @ ''Like this:'' @ nl
     @ ''This is a sentence with a reference to a source [source 1][1] and another reference [source 2][2].'' @ nl
     @ ''[1]: http://example.com/source1 \"Title of Source 1\"'' @ nl
     @ ''[2]: http://example.com/source2 \"Title of Source 2\"'' @ nl"

text \<open>
  \<open>current_step.update({...})\<close>: four keys are written, the others stay.
\<close>

definition complete_step :: "string \<Rightarrow> step \<Rightarrow> step" where
  "complete_step response_content current_step =
     current_step
       \<lparr> result := Some response_content,
         search_result := None,
         status := ''complete'',
         updates := Some ((case updates current_step of None \<Rightarrow> [] | Some us \<Rightarrow> us) @ [''Done.'']) \<rparr>"

text \<open>
  \<open>next_step = next(...); if next_step: next_step["updates"] = ["Searching the web..."]\<close>
\<close>

definition mark_next :: "step list \<Rightarrow> step list" where
  "mark_next ss =
     (case first_pending ss of
        None \<Rightarrow> ss
      | Some j \<Rightarrow> ss[j := (ss ! j)\<lparr>updates := Some [''Searching the web...'']\<rparr>])"

text \<open>
  \<open>extract_node\<close>.  \<open>get_model\<close> of \<open>ai_researcher/model.py\<close> is not part of the
  sources at hand: it is a parameter, either an exception or the model's \<open>ainvoke\<close>.
  Python evaluates \<open>get_model()\<close> before the argument list, so a failing
  \<open>get_model\<close> wins over the \<open>IndexError\<close> of \<open>state["messages"][0]\<close>.
\<close>

definition extract_node ::
  "(step \<Rightarrow> string) \<Rightarrow> (exn + (message list \<Rightarrow> exn + message)) \<Rightarrow> ResearchState
     \<Rightarrow> (ResearchState, message list) run" where
  "extract_node json_dumps get_model state =
     (case first_pending (steps state) of
        None \<Rightarrow>
          \<lparr>raised = Some (ValueError ''No pending search step found''), final = state, calls = []\<rparr>
      | Some i \<Rightarrow>
          let current_step = steps state ! i in
          if step_type current_step \<noteq> Some ''search'' then
            \<lparr>raised = Some (ValueError ''The current step is not a search step''),
             final = state, calls = []\<rparr>
          else
            (case get_model of
               Inl e \<Rightarrow> \<lparr>raised = Some e, final = state, calls = []\<rparr>
             | Inr ainvoke \<Rightarrow>
                 (case messages state of
                    [] \<Rightarrow>
                      \<lparr>raised = Some (IndexError ''list index out of range''),
                       final = state, calls = []\<rparr>
                  | m0 # _ \<Rightarrow>
                      let request = [m0, HumanMessage (system_message json_dumps current_step)] in
                      (case ainvoke request of
                         Inl e \<Rightarrow> \<lparr>raised = Some e, final = state, calls = [request]\<rparr>
                       | Inr response \<Rightarrow>
                           \<lparr>raised = None,
                            final = state\<lparr>steps :=
                              mark_next ((steps state)[i := complete_step (content response) current_step])\<rparr>,
                            calls = [request]\<rparr>))))"

section \<open>The translator: \<open>my_agent/agent.py\<close>\<close>

definition DEFAULT_MODEL :: string where
  "DEFAULT_MODEL = ''openai''"

definition OPENAI_MODEL :: string where
  "OPENAI_MODEL = ''gpt-4o''"

definition ANTHROPIC_MODEL :: string where
  "ANTHROPIC_MODEL = ''claude-3-5-sonnet-20240620''"

datatype chat_model =
    ChatOpenAI int string
  | ChatAnthropic int string "int option" "string list option"

text \<open>
  \<open>get_model\<close>; the argument is the value of the environment variable \<open>MODEL\<close>,
  \<open>None\<close> when it is unset.  Building a client object sends nothing.
\<close>

definition get_model :: "string option \<Rightarrow> exn + chat_model" where
  "get_model env =
     (let model_choice = lower (case env of None \<Rightarrow> DEFAULT_MODEL | Some v \<Rightarrow> v) in
      if model_choice = ''openai'' then Inr (ChatOpenAI 0 OPENAI_MODEL)
      else if model_choice = ''anthropic'' then Inr (ChatAnthropic 0 ANTHROPIC_MODEL None None)
      else Inl (ValueError (''Invalid model specified: '' @ model_choice)))"

type_synonym Translations = "string \<rightharpoonup> string"

record AgentState = MessagesState +
  state_translations :: "Translations option"
  input :: "string option"

text \<open>
  The run-time class of the object passed as state.  \<open>AgentState\<close> extends
  \<open>MessagesState\<close> of \<open>langgraph\<close>, a \<open>TypedDict\<close>: the states the graph builds are
  plain dicts (\<open>Dict\<close>), and a dict has its keys as items, not as attributes.  Python
  does not enforce the annotation, so a caller may also pass a dict subclass that offers
  its keys as attributes as well (\<open>AttrDict\<close>).
\<close>

datatype state_class = Dict | AttrDict

definition no_attribute :: "string \<Rightarrow> string" where
  "no_attribute key =
     [CHR 0x27] @ ''dict'' @ [CHR 0x27] @ '' object has no attribute ''
     @ [CHR 0x27] @ key @ [CHR 0x27]"

text \<open>
  \<open>state.messages\<close>: the attribute read, given the class of the object and the value
  stored under the key.
\<close>

definition getattr :: "state_class \<Rightarrow> string \<Rightarrow> 'a \<Rightarrow> exn + 'a" where
  "getattr cls key v =
     (case cls of
        Dict \<Rightarrow> Inl (AttributeError (no_attribute key))
      | AttrDict \<Rightarrow> Inr v)"

text \<open>
  The model after \<open>bind_tools\<close>: the client, the bound tool schemas by name, and the
  tool choice (\<open>None\<close> leaves the call to the model, a name forces that tool).
\<close>

record bound_model =
  base :: chat_model
  tools :: "string list"
  tool_choice :: "string option"

record invocation =
  model :: bound_model
  sent :: "message list"

text \<open>
  The f-string of the translator, as a function of the value stored under \<open>input\<close>.
  Its first lines are fixed; the sentence about the text being translated is added when
  \<open>state.get("input")\<close> is true, that is, for a present, non-empty text.
\<close>

definition translation_instruction :: string where
  "translation_instruction =
     nl
     @ ''    You are a helpful assistant that translates text to different languages '' @ nl
     @ ''    (Spanish, French, and German).'' @ nl
     @ ''    Don't ask for confirmation before translating.'' @ nl
     @ ''    ''"

definition translation_prompt :: "string option \<Rightarrow> string" where
  "translation_prompt state_input =
     translation_instruction
     @ (case state_input of
          None \<Rightarrow> ''''
        | Some [] \<Rightarrow> ''''
        | Some (c # cs) \<Rightarrow>
            ''The user is currently working on translating this text: \"'' @ (c # cs) @ ''\"'')
     @ nl
     @ ''    ''"

text \<open>
  \<open>get_model().bind_tools(tools=[Translations], tool_choice=(None if state.messages and
  isinstance(state.messages[-1], HumanMessage) else "Translations"))\<close>, as a function of
  the client and of the message list that \<open>state.messages\<close> gave.
\<close>

definition bind_tools :: "chat_model \<Rightarrow> message list \<Rightarrow> bound_model" where
  "bind_tools m state_messages =
     \<lparr>base = m, tools = [''Translations''],
      tool_choice =
        (if state_messages \<noteq> [] \<and> is_HumanMessage (last state_messages) then None
         else Some ''Translations'')\<rparr>"

definition new_message :: "string option \<Rightarrow> message" where
  "new_message state_input = HumanMessage (translation_prompt state_input)"

text \<open>
  The list comprehension over the message list, and the \<open>append\<close> after it.
\<close>

definition filtered_messages :: "message list \<Rightarrow> message \<Rightarrow> message list" where
  "filtered_messages state_messages request =
     filter (\<lambda>message. \<not> is_SystemMessage message
                \<and> \<not> (is_AIMessage message \<and> strip (content message) = []))
       state_messages
     @ [request]"

text \<open>
  \<open>hasattr(response, "tool_calls") and response.tool_calls\<close>: only an AI message has
  the attribute, and an empty list is false.
\<close>

fun response_tool_calls :: "message \<Rightarrow> tool_call list" where
  "response_tool_calls (AIMessage c tcs) = tcs"
| "response_tool_calls m = []"

text \<open>
  \<open>translate_node\<close>.  The arguments are the class of the state object, the value of
  \<open>MODEL\<close>, the model service and the contents of the state.

  Python evaluates \<open>get_model()\<close> first, then the arguments of \<open>bind_tools\<close>.  The
  first of them reads \<open>state.messages\<close>: on a plain dict this raises
  \<open>AttributeError\<close>, before the tools are bound and before anything is sent.  Where
  that read succeeds, the object has its keys as attributes, so the later reads and
  assignments of \<open>state.input\<close>, \<open>state.translations\<close> and \<open>state.messages\<close> succeed
  as well.

  After a tool call the translations and the input are assigned first; building the
  \<open>ToolMessage\<close> from the call's \<open>id\<close> comes after, and fails for an \<open>id\<close> that is
  \<open>None\<close>, with the two assignments done and the messages as they were.
\<close>

definition translate_node ::
  "state_class \<Rightarrow> string option \<Rightarrow> (bound_model \<Rightarrow> message list \<Rightarrow> exn + message)
     \<Rightarrow> AgentState \<Rightarrow> (AgentState, invocation) run" where
  "translate_node cls env ainvoke state =
     (case get_model env of
        Inl e \<Rightarrow> \<lparr>raised = Some e, final = state, calls = []\<rparr>
      | Inr m \<Rightarrow>
          (case getattr cls ''messages'' (messages state) of
             Inl e \<Rightarrow> \<lparr>raised = Some e, final = state, calls = []\<rparr>
           | Inr state_messages \<Rightarrow>
               let request = new_message (input state);
                   call = \<lparr>model = bind_tools m state_messages,
                           sent = filtered_messages state_messages request\<rparr>
               in (case ainvoke (model call) (sent call) of
                     Inl e \<Rightarrow> \<lparr>raised = Some e, final = state, calls = [call]\<rparr>
                   | Inr response \<Rightarrow>
                       (case response_tool_calls response of
                          tc # _ \<Rightarrow>
                            let written =
                                  state\<lparr>state_translations :=
                                          Some (case args tc of None \<Rightarrow> Map.empty | Some a \<Rightarrow> a),
                                        input := Some ''''\<rparr>
                            in (case call_id tc of
                                  None \<Rightarrow>
                                    \<lparr>raised = Some (ValidationError ''tool_call_id''),
                                     final = written, calls = [call]\<rparr>
                                | Some i \<Rightarrow>
                                    \<lparr>raised = None,
                                     final = written
                                       \<lparr>messages :=
                                          [request, response, ToolMessage ''Translated!'' i]\<rparr>,
                                     calls = [call]\<rparr>)
                        | [] \<Rightarrow>
                            \<lparr>raised = None,
                             final = state\<lparr>messages := [request, response]\<rparr>,
                             calls = [call]\<rparr>))))"

section \<open>Notions used to state the properties\<close>

text \<open>
  \<open>pending_after ss i j\<close>: position \<open>j\<close> holds the first pending step behind
  position \<open>i\<close>.
\<close>

definition pending_after :: "step list \<Rightarrow> nat \<Rightarrow> nat \<Rightarrow> bool" where
  "pending_after ss i j \<longleftrightarrow>
     i < j \<and> j < length ss \<and> status (ss ! j) = ''pending''
     \<and> (\<forall>s \<in> set (drop (Suc i) (take j ss)). status s \<noteq> ''pending'')"

section \<open>Example states and model services\<close>

definition demo_dumps :: "step \<Rightarrow> string" where
  "demo_dumps s = ''{\"id\": \"'' @ step_id s @ ''\"}''"

definition summary_reply :: message where
  "summary_reply = AIMessage ''Paris is the capital of France [source 1][1].'' []"

definition summary_model :: "exn + (message list \<Rightarrow> exn + message)" where
  "summary_model = Inr (\<lambda>request. Inr summary_reply)"

definition silent_model :: "exn + (message list \<Rightarrow> exn + message)" where
  "silent_model = Inr (\<lambda>request. Inr (AIMessage '''' []))"

definition question :: message where
  "question = HumanMessage ''What is the capital of France?''"

definition done_step :: step where
  "done_step =
     \<lparr>step_id = ''1'', step_type = Some ''search'', status = ''complete'',
      result = Some ''France is a country in Europe.'', search_result = None,
      updates = Some [''Searching the web...'', ''Done.'']\<rparr>"

definition search_step :: step where
  "search_step =
     \<lparr>step_id = ''2'', step_type = Some ''search'', status = ''pending'',
      result = None, search_result = Some ''[{\"url\": \"http://example.com\"}]'',
      updates = Some [''Searching the web...'']\<rparr>"

definition fresh_step :: step where
  "fresh_step =
     \<lparr>step_id = ''2'', step_type = Some ''search'', status = ''pending'',
      result = None, search_result = None, updates = None\<rparr>"

definition queued_step :: step where
  "queued_step =
     \<lparr>step_id = ''3'', step_type = Some ''search'', status = ''pending'',
      result = None, search_result = None, updates = Some [''Queued.'']\<rparr>"

definition write_step :: step where
  "write_step =
     \<lparr>step_id = ''0'', step_type = Some ''generate'', status = ''pending'',
      result = None, search_result = None, updates = Some []\<rparr>"

definition one_search_state :: ResearchState where
  "one_search_state = \<lparr>messages = [question], steps = [done_step, search_step]\<rparr>"

definition fresh_state :: ResearchState where
  "fresh_state = \<lparr>messages = [question], steps = [done_step, fresh_step]\<rparr>"

definition two_pending_state :: ResearchState where
  "two_pending_state = \<lparr>messages = [question], steps = [search_step, done_step, queued_step]\<rparr>"

definition three_pending_state :: ResearchState where
  "three_pending_state =
     \<lparr>messages = [question], steps = [done_step, search_step, queued_step, write_step]\<rparr>"

definition no_pending_state :: ResearchState where
  "no_pending_state = \<lparr>messages = [question], steps = [done_step]\<rparr>"

definition blocked_state :: ResearchState where
  "blocked_state = \<lparr>messages = [question], steps = [done_step, write_step, search_step]\<rparr>"

definition plain_reply :: message where
  "plain_reply = AIMessage ''Which text should I translate?'' []"

definition plain_model :: "bound_model \<Rightarrow> message list \<Rightarrow> exn + message" where
  "plain_model m ms = Inr plain_reply"

definition hello_payload :: Translations where
  "hello_payload =
     [''translation_es'' \<mapsto> ''Hola'', ''translation_fr'' \<mapsto> ''Bonjour'',
      ''translation_de'' \<mapsto> ''Hallo'']"

definition hello_call :: tool_call where
  "hello_call = \<lparr>name = ''Translations'', args = Some hello_payload, call_id = Some ''call_1''\<rparr>"

definition tool_reply :: message where
  "tool_reply = AIMessage '''' [hello_call]"

definition tool_model :: "bound_model \<Rightarrow> message list \<Rightarrow> exn + message" where
  "tool_model m ms = Inr tool_reply"

definition human_last_state :: AgentState where
  "human_last_state =
     \<lparr>messages = [HumanMessage ''Hello''], state_translations = None, input = Some ''Hello''\<rparr>"

definition ai_last_state :: AgentState where
  "ai_last_state =
     \<lparr>messages = [HumanMessage ''Hello'', AIMessage ''Which languages?'' []],
      state_translations = None, input = Some ''Hello''\<rparr>"

definition mixed_state :: AgentState where
  "mixed_state =
     \<lparr>messages =
        [SystemMessage ''You translate.'', HumanMessage ''Hello'', AIMessage ''  '' [],
         AIMessage ''Which languages?'' [], AIMessage '''' []],
      state_translations = None, input = None\<rparr>"

section \<open>Facts about the helper functions\<close>

lemma first_pending_None_iff:
  "first_pending ss = None \<longleftrightarrow> (\<forall>s \<in> set ss. status s \<noteq> ''pending'')"
  by (induction ss) auto

lemma first_pending_Some_iff:
  "first_pending ss = Some i \<longleftrightarrow>
     i < length ss \<and> status (ss ! i) = ''pending''
     \<and> (\<forall>s \<in> set (take i ss). status s \<noteq> ''pending'')"
proof (induction ss arbitrary: i)
  case Nil
  then show ?case by simp
next
  case (Cons s ss)
  show ?case
  proof (cases i)
    case 0
    then show ?thesis by auto
  next
    case (Suc k)
    then show ?thesis using Cons.IH [of k] by auto
  qed
qed

text \<open>
  Once the first pending step has been given another status, the second scan of the
  list finds the first pending step behind it.
\<close>

lemma first_pending_update:
  assumes "first_pending ss = Some i" and "status c \<noteq> ''pending''"
  shows "first_pending (ss[i := c]) = Some j \<longleftrightarrow> pending_after ss i j"
  using assms
proof (induction ss arbitrary: i j)
  case Nil
  then show ?case by simp
next
  case (Cons s ss)
  show ?case
  proof (cases i)
    case 0
    show ?thesis
    proof (cases j)
      case 0
      then show ?thesis using \<open>i = 0\<close> Cons.prems by (simp add: pending_after_def)
    next
      case (Suc j')
      then show ?thesis using \<open>i = 0\<close> Cons.prems
        by (auto simp: pending_after_def first_pending_Some_iff)
    qed
  next
    case (Suc i')
    with Cons.prems have ns: "status s \<noteq> ''pending''" and fp: "first_pending ss = Some i'"
      by (auto split: if_splits)
    show ?thesis
    proof (cases j)
      case 0
      then show ?thesis using Suc ns by (simp add: pending_after_def)
    next
      case (Suc j')
      then show ?thesis using \<open>i = Suc i'\<close> ns Cons.IH [OF fp Cons.prems(2), of j']
        by (auto simp: pending_after_def)
    qed
  qed
qed

lemma first_pending_update_None:
  assumes "first_pending ss = Some i" and "status c \<noteq> ''pending''"
  shows "first_pending (ss[i := c]) = None \<longleftrightarrow> (\<forall>j. \<not> pending_after ss i j)"
  using first_pending_update [OF assms] by (metis not_Some_eq)

lemma length_mark_next: "length (mark_next ss) = length ss"
  by (simp add: mark_next_def split: option.splits)

lemma mark_next_nth:
  assumes fp: "first_pending ss = Some i" and c: "status c \<noteq> ''pending''"
    and k: "k < length ss"
  shows "mark_next (ss[i := c]) ! k =
           (if pending_after ss i k then (ss ! k)\<lparr>updates := Some [''Searching the web...'']\<rparr>
            else (ss[i := c]) ! k)"
proof (cases "first_pending (ss[i := c])")
  case None
  then have "\<not> pending_after ss i k"
    using first_pending_update_None [OF fp c] by simp
  then show ?thesis using None by (simp add: mark_next_def)
next
  case (Some j)
  then have pj: "pending_after ss i j"
    using first_pending_update [OF fp c] by simp
  have iff: "pending_after ss i k \<longleftrightarrow> k = j"
    using first_pending_update [OF fp c, of k] Some by auto
  from pj have "i < j" "j < length ss" by (simp_all add: pending_after_def)
  then show ?thesis using Some iff k by (simp add: mark_next_def nth_list_update)
qed

lemma status_complete_step: "status (complete_step r s) \<noteq> ''pending''"
  by (simp add: complete_step_def)

lemma not_pending_after_self: "\<not> pending_after ss i i"
  by (simp add: pending_after_def)

text \<open>The one path of \<open>extract_node\<close> that returns, and that it is the only one.\<close>

lemma extract_node_success:
  assumes "first_pending (steps st) = Some i"
    and "step_type (steps st ! i) = Some ''search''"
    and "gm = Inr ainvoke"
    and "messages st = m0 # ms"
    and "ainvoke [m0, HumanMessage (system_message jd (steps st ! i))] = Inr response"
  shows "extract_node jd gm st =
           \<lparr>raised = None,
            final = st\<lparr>steps :=
              mark_next ((steps st)[i := complete_step (content response) (steps st ! i)])\<rparr>,
            calls = [[m0, HumanMessage (system_message jd (steps st ! i))]]\<rparr>"
  using assms by (simp add: extract_node_def Let_def)

lemma extract_node_returns:
  assumes "raised (extract_node jd gm st) = None"
  shows "\<exists>i ainvoke m0 ms response.
           first_pending (steps st) = Some i
           \<and> step_type (steps st ! i) = Some ''search''
           \<and> gm = Inr ainvoke
           \<and> messages st = m0 # ms
           \<and> ainvoke [m0, HumanMessage (system_message jd (steps st ! i))] = Inr response"
  using assms
  by (auto simp: extract_node_def Let_def
      split: option.splits if_splits sum.splits list.splits)

lemma extract_node_steps:
  assumes "first_pending (steps st) = Some i"
    and "step_type (steps st ! i) = Some ''search''"
    and "gm = Inr ainvoke"
    and "messages st = m0 # ms"
    and "ainvoke [m0, HumanMessage (system_message jd (steps st ! i))] = Inr response"
    and "k < length (steps st)"
  shows "steps (final (extract_node jd gm st)) ! k =
           (if k = i then complete_step (content response) (steps st ! i)
            else if pending_after (steps st) i k
              then (steps st ! k)\<lparr>updates := Some [''Searching the web...'']\<rparr>
            else steps st ! k)"
proof -
  have "steps (final (extract_node jd gm st)) =
          mark_next ((steps st)[i := complete_step (content response) (steps st ! i)])"
    by (simp add: extract_node_success [OF assms(1-5)])
  then show ?thesis
    using mark_next_nth [OF assms(1) status_complete_step assms(6)] assms(6)
    by (simp add: not_pending_after_self nth_list_update)
qed

text \<open>\<open>strip\<close> leaves nothing exactly of the texts made of white space.\<close>

lemma strip_empty_iff: "strip s = [] \<longleftrightarrow> (\<forall>c \<in> set s. isspace c)"
proof -
  have "strip s = [] \<longleftrightarrow> (\<forall>c \<in> set (dropWhile isspace s). isspace c)"
    by (simp add: strip_def)
  also have "\<dots> \<longleftrightarrow> (\<forall>c \<in> set s. isspace c)"
  proof
    assume a: "\<forall>c \<in> set (dropWhile isspace s). isspace c"
    show "\<forall>c \<in> set s. isspace c"
    proof
      fix c assume "c \<in> set s"
      then have "c \<in> set (takeWhile isspace s) \<or> c \<in> set (dropWhile isspace s)"
        by (metis Un_iff set_append takeWhile_dropWhile_id)
      then show "isspace c" using a by (auto dest: set_takeWhileD)
    qed
  next
    assume "\<forall>c \<in> set s. isspace c"
    then show "\<forall>c \<in> set (dropWhile isspace s). isspace c"
      by (auto dest: set_dropWhileD)
  qed
  finally show ?thesis .
qed

lemma get_model_unset: "get_model None = Inr (ChatOpenAI 0 OPENAI_MODEL)"
  by (simp add: get_model_def DEFAULT_MODEL_def lower_def lower_char_def)

lemma translate_node_dict:
  assumes "get_model env = Inr m"
  shows "translate_node Dict env ainvoke st =
           \<lparr>raised = Some (AttributeError (no_attribute ''messages'')), final = st, calls = []\<rparr>"
  using assms by (simp add: translate_node_def getattr_def)

lemma translate_node_calls:
  assumes "get_model env = Inr m"
  shows "calls (translate_node AttrDict env ainvoke st) =
           [\<lparr>model = bind_tools m (messages st),
             sent = filtered_messages (messages st) (new_message (input st))\<rparr>]"
  using assms
  by (simp add: translate_node_def getattr_def Let_def
      split: sum.splits list.splits option.splits)

text \<open>
  What \<open>translate_node\<close> does with the model's answer on a state object that offers
  its keys as attributes, and the messages it sends there in terms of white space.
\<close>

lemma translate_node_attr_tool_call:
  assumes "get_model env = Inr m"
    and "ainvoke (bind_tools m (messages st))
           (filtered_messages (messages st) (new_message (input st))) = Inr response"
    and "response_tool_calls response = tc # tcs"
    and "call_id tc = Some i"
  shows "raised (translate_node AttrDict env ainvoke st) = None"
    and "final (translate_node AttrDict env ainvoke st) =
           st\<lparr>messages := [new_message (input st), response, ToolMessage ''Translated!'' i],
             state_translations := Some (case args tc of None \<Rightarrow> Map.empty | Some a \<Rightarrow> a),
             input := Some ''''\<rparr>"
  using assms by (simp_all add: translate_node_def getattr_def Let_def)

lemma translate_node_attr_no_id:
  assumes "get_model env = Inr m"
    and "ainvoke (bind_tools m (messages st))
           (filtered_messages (messages st) (new_message (input st))) = Inr response"
    and "response_tool_calls response = tc # tcs"
    and "call_id tc = None"
  shows "raised (translate_node AttrDict env ainvoke st) = Some (ValidationError ''tool_call_id'')"
    and "final (translate_node AttrDict env ainvoke st) =
           st\<lparr>state_translations := Some (case args tc of None \<Rightarrow> Map.empty | Some a \<Rightarrow> a),
             input := Some ''''\<rparr>"
  using assms by (simp_all add: translate_node_def getattr_def Let_def)

lemma translate_node_attr_no_tool_call:
  assumes "get_model env = Inr m"
    and "ainvoke (bind_tools m (messages st))
           (filtered_messages (messages st) (new_message (input st))) = Inr response"
    and "response_tool_calls response = []"
  shows "raised (translate_node AttrDict env ainvoke st) = None"
    and "final (translate_node AttrDict env ainvoke st) =
           st\<lparr>messages := [new_message (input st), response]\<rparr>"
  using assms by (simp_all add: translate_node_def getattr_def Let_def)

lemma filtered_messages_whitespace:
  "filtered_messages ms request =
     filter (\<lambda>msg. \<not> is_SystemMessage msg
               \<and> \<not> (is_AIMessage msg \<and> (\<forall>c \<in> set (content msg). isspace c))) ms
     @ [request]"
  by (simp add: filtered_messages_def strip_empty_iff)

section \<open>The example runs, evaluated\<close>

lemma first_pending_examples:
  "first_pending (steps one_search_state) = Some 1"
  "first_pending (steps fresh_state) = Some 1"
  "first_pending (steps two_pending_state) = Some 0"
  "first_pending (steps three_pending_state) = Some 1"
  "first_pending (steps no_pending_state) = None"
  "first_pending (steps blocked_state) = Some 1"
  by (simp_all add: one_search_state_def fresh_state_def two_pending_state_def
      three_pending_state_def no_pending_state_def blocked_state_def
      done_step_def search_step_def fresh_step_def queued_step_def write_step_def)

lemma run_one_search_silent:
  "extract_node demo_dumps silent_model one_search_state =
     \<lparr>raised = None,
      final = \<lparr>messages = [question],
               steps = [done_step,
                        search_step\<lparr>result := Some '''', search_result := None,
                          status := ''complete'',
                          updates := Some [''Searching the web...'', ''Done.'']\<rparr>]\<rparr>,
      calls = [[question, HumanMessage (system_message demo_dumps search_step)]]\<rparr>"
  by (simp add: extract_node_def silent_model_def one_search_state_def done_step_def
      search_step_def mark_next_def complete_step_def)

lemma run_two_pending:
  "extract_node demo_dumps summary_model two_pending_state =
     \<lparr>raised = None,
      final = \<lparr>messages = [question],
               steps = [search_step\<lparr>result := Some (content summary_reply),
                          search_result := None, status := ''complete'',
                          updates := Some [''Searching the web...'', ''Done.'']\<rparr>,
                        done_step,
                        queued_step\<lparr>updates := Some [''Searching the web...'']\<rparr>]\<rparr>,
      calls = [[question, HumanMessage (system_message demo_dumps search_step)]]\<rparr>"
  by (simp add: extract_node_def summary_model_def two_pending_state_def done_step_def
      search_step_def queued_step_def mark_next_def complete_step_def)

lemma run_three_pending:
  "extract_node demo_dumps summary_model three_pending_state =
     \<lparr>raised = None,
      final = \<lparr>messages = [question],
               steps = [done_step,
                        search_step\<lparr>result := Some (content summary_reply),
                          search_result := None, status := ''complete'',
                          updates := Some [''Searching the web...'', ''Done.'']\<rparr>,
                        queued_step\<lparr>updates := Some [''Searching the web...'']\<rparr>,
                        write_step]\<rparr>,
      calls = [[question, HumanMessage (system_message demo_dumps search_step)]]\<rparr>"
  by (simp add: extract_node_def summary_model_def three_pending_state_def done_step_def
      search_step_def queued_step_def write_step_def mark_next_def complete_step_def)

lemma pending_after_three: "pending_after (steps three_pending_state) 1 2"
  by (simp add: pending_after_def three_pending_state_def queued_step_def)

lemma get_model_examples:
  "lower ''Gemini'' = ''gemini''"
  "get_model (Some ''Anthropic'') = Inr (ChatAnthropic 0 ANTHROPIC_MODEL None None)"
  by code_simp+

section \<open>Properties of the step summarizer\<close>

text \<open>
  C2.  When no step of the state is pending, or the first pending step is not of type
  "search", \<open>extract_node\<close> raises a \<open>ValueError\<close>; the state it was given, and so
  every field of every step, is as before, and the model was not called.
\<close>

theorem extract_node_invalid_state:
  assumes "(\<forall>s \<in> set (steps st). status s \<noteq> ''pending'')
           \<or> (\<exists>i. first_pending (steps st) = Some i
                  \<and> step_type (steps st ! i) \<noteq> Some ''search'')"
  shows "(\<exists>msg. raised (extract_node jd gm st) = Some (ValueError msg))
         \<and> final (extract_node jd gm st) = st
         \<and> steps (final (extract_node jd gm st)) = steps st
         \<and> calls (extract_node jd gm st) = []"
  using assms
  by (auto simp: extract_node_def Let_def first_pending_None_iff [symmetric])

theorem extract_node_invalid_state_witness:
  "''pending'' \<notin> set (map status (steps no_pending_state))
   \<and> raised (extract_node demo_dumps summary_model no_pending_state)
       = Some (ValueError ''No pending search step found'')
   \<and> steps (final (extract_node demo_dumps summary_model no_pending_state))
       = steps no_pending_state"
proof -
  have h: "\<forall>s \<in> set (steps no_pending_state). status s \<noteq> ''pending''"
    by (simp add: no_pending_state_def done_step_def)
  have r: "raised (extract_node demo_dumps summary_model no_pending_state)
             = Some (ValueError ''No pending search step found'')"
    by (simp add: extract_node_def first_pending_examples)
  from h have "(\<forall>s \<in> set (steps no_pending_state). status s \<noteq> ''pending'')
      \<or> (\<exists>i. first_pending (steps no_pending_state) = Some i
             \<and> step_type (steps no_pending_state ! i) \<noteq> Some ''search'')"
    by (rule disjI1)
  from extract_node_invalid_state [OF this, of demo_dumps summary_model] h r
  show ?thesis by auto
qed

text \<open>
  C3, as the code has it.  When the first pending step is of type "search" and the
  model answers, \<open>extract_node\<close> returns; that step then has status "complete" and its
  result is the content of the model's answer, whatever it is, the empty text included.
  If a pending step follows, the log of the first such step is replaced by the single
  entry "Searching the web...".
\<close>

theorem extract_node_completes_step:
  assumes "first_pending (steps st) = Some i"
    and "step_type (steps st ! i) = Some ''search''"
    and "gm = Inr ainvoke"
    and "messages st = m0 # ms"
    and "ainvoke [m0, HumanMessage (system_message jd (steps st ! i))] = Inr response"
  shows "raised (extract_node jd gm st) = None
         \<and> status (steps (final (extract_node jd gm st)) ! i) = ''complete''
         \<and> result (steps (final (extract_node jd gm st)) ! i) = Some (content response)
         \<and> (\<forall>j. pending_after (steps st) i j \<longrightarrow>
               updates (steps (final (extract_node jd gm st)) ! j)
                 = Some [''Searching the web...''])"
proof -
  from assms(1) have i: "i < length (steps st)"
    by (simp add: first_pending_Some_iff)
  have a: "raised (extract_node jd gm st) = None"
    by (simp add: extract_node_success [OF assms])
  have b: "status (steps (final (extract_node jd gm st)) ! i) = ''complete''"
    by (simp add: extract_node_steps [OF assms i] complete_step_def)
  have c: "result (steps (final (extract_node jd gm st)) ! i) = Some (content response)"
    by (simp add: extract_node_steps [OF assms i] complete_step_def)
  have d: "updates (steps (final (extract_node jd gm st)) ! j) = Some [''Searching the web...'']"
    if p: "pending_after (steps st) i j" for j
  proof -
    from p have "j < length (steps st)" and "j \<noteq> i"
      by (simp_all add: pending_after_def)
    then show ?thesis using p by (simp add: extract_node_steps [OF assms])
  qed
  from a b c d show ?thesis by blast
qed

theorem extract_node_completes_step_witness:
  "first_pending (steps three_pending_state) = Some 1
   \<and> step_type (steps three_pending_state ! 1) = Some ''search''
   \<and> pending_after (steps three_pending_state) 1 2
   \<and> raised (extract_node demo_dumps summary_model three_pending_state) = None
   \<and> status (steps (final (extract_node demo_dumps summary_model three_pending_state)) ! 1)
       = ''complete''
   \<and> result (steps (final (extract_node demo_dumps summary_model three_pending_state)) ! 1)
       = Some (content summary_reply)
   \<and> updates (steps (final (extract_node demo_dumps summary_model three_pending_state)) ! 2)
       = Some [''Searching the web...'']"
proof -
  have h1: "first_pending (steps three_pending_state) = Some 1"
    by (rule first_pending_examples)
  have h2: "step_type (steps three_pending_state ! 1) = Some ''search''"
    by (simp add: three_pending_state_def search_step_def)
  have h3: "summary_model = Inr (\<lambda>request. Inr summary_reply)"
    by (simp add: summary_model_def)
  have h4: "messages three_pending_state = question # []"
    by (simp add: three_pending_state_def)
  have h5: "(\<lambda>request. Inr summary_reply)
              [question, HumanMessage (system_message demo_dumps (steps three_pending_state ! 1))]
            = (Inr summary_reply :: exn + message)"
    by simp
  from extract_node_completes_step [OF h1 h2 h3 h4 h5] pending_after_three h1 h2
  show ?thesis by simp
qed

text \<open>
  C3 as it is written fails twice.  With exactly one pending step, a search step, and a
  model that answers with the empty text, the run returns and the result of the step is
  empty.  With a second pending step whose log was \<open>["Queued."]\<close>, that log is
  \<open>["Searching the web..."]\<close> afterwards: the earlier entry is gone.
\<close>

theorem extract_node_completes_step_counterexample:
  "first_pending (steps one_search_state) = Some 1
   \<and> raised (extract_node demo_dumps silent_model one_search_state) = None
   \<and> result (steps (final (extract_node demo_dumps silent_model one_search_state)) ! 1)
       = Some ''''
   \<and> updates (steps two_pending_state ! 2) = Some [''Queued.'']
   \<and> raised (extract_node demo_dumps summary_model two_pending_state) = None
   \<and> updates (steps (final (extract_node demo_dumps summary_model two_pending_state)) ! 2)
       = Some [''Searching the web...'']"
  by (simp add: run_one_search_silent run_two_pending first_pending_examples)
    (simp add: two_pending_state_def queued_step_def)

text \<open>
  C7.  Let the first pending step be at position \<open>i\<close>.  When it is of type "search"
  and the model answers, \<open>extract_node\<close> returns and the \<open>search_result\<close> of that
  step is \<open>None\<close> afterwards, whatever it held before, a raw search result or
  \<open>None\<close>.  And on every run of \<open>extract_node\<close> that returns, the \<open>search_result\<close>
  of that step is \<open>None\<close>.
\<close>

theorem extract_node_discards_search_result:
  assumes "first_pending (steps st) = Some i"
  shows "(step_type (steps st ! i) = Some ''search''
            \<and> gm = Inr ainvoke
            \<and> messages st = m0 # ms
            \<and> ainvoke [m0, HumanMessage (system_message jd (steps st ! i))] = Inr response
          \<longrightarrow> raised (extract_node jd gm st) = None
              \<and> search_result (steps (final (extract_node jd gm st)) ! i) = None)
         \<and> (raised (extract_node jd gm st) = None
          \<longrightarrow> search_result (steps (final (extract_node jd gm st)) ! i) = None)"
proof -
  from assms have i: "i < length (steps st)"
    by (simp add: first_pending_Some_iff)
  have discarded: "search_result (steps (final (extract_node jd gm st)) ! i) = None"
    if "step_type (steps st ! i) = Some ''search''" "gm = Inr a" "messages st = m # rest"
      "a [m, HumanMessage (system_message jd (steps st ! i))] = Inr r" for a m rest r
    by (simp add: extract_node_steps [OF assms that i] complete_step_def)
  have returns: "raised (extract_node jd gm st) = None"
    if "step_type (steps st ! i) = Some ''search''" "gm = Inr a" "messages st = m # rest"
      "a [m, HumanMessage (system_message jd (steps st ! i))] = Inr r" for a m rest r
    by (simp add: extract_node_success [OF assms that])
  have every: "search_result (steps (final (extract_node jd gm st)) ! i) = None"
    if "raised (extract_node jd gm st) = None"
  proof -
    from extract_node_returns [OF that] assms
    obtain a m rest r where
      "step_type (steps st ! i) = Some ''search''" "gm = Inr a" "messages st = m # rest"
      "a [m, HumanMessage (system_message jd (steps st ! i))] = Inr r"
      by auto
    then show ?thesis by (rule discarded)
  qed
  from discarded [of ainvoke m0 ms response] returns [of ainvoke m0 ms response] every
  show ?thesis by auto
qed

theorem extract_node_discards_search_result_witness:
  "first_pending (steps one_search_state) = Some 1
   \<and> search_result (steps one_search_state ! 1) = Some ''[{\"url\": \"http://example.com\"}]''
   \<and> raised (extract_node demo_dumps summary_model one_search_state) = None
   \<and> search_result (steps (final (extract_node demo_dumps summary_model one_search_state)) ! 1)
       = None
   \<and> first_pending (steps fresh_state) = Some 1
   \<and> search_result (steps fresh_state ! 1) = None
   \<and> raised (extract_node demo_dumps summary_model fresh_state) = None
   \<and> search_result (steps (final (extract_node demo_dumps summary_model fresh_state)) ! 1)
       = None"
proof -
  have p1: "first_pending (steps one_search_state) = Some 1"
    and p2: "first_pending (steps fresh_state) = Some 1"
    by (rule first_pending_examples)+
  have before:
    "search_result (steps one_search_state ! 1) = Some ''[{\"url\": \"http://example.com\"}]''"
    "search_result (steps fresh_state ! 1) = None"
    by (simp_all add: one_search_state_def search_step_def fresh_state_def fresh_step_def)
  have t: "step_type (steps one_search_state ! 1) = Some ''search''"
    "step_type (steps fresh_state ! 1) = Some ''search''"
    by (simp_all add: one_search_state_def search_step_def fresh_state_def fresh_step_def)
  have g: "summary_model = Inr (\<lambda>request. Inr summary_reply)"
    by (simp add: summary_model_def)
  have m: "messages one_search_state = question # []" "messages fresh_state = question # []"
    by (simp_all add: one_search_state_def fresh_state_def)
  from extract_node_discards_search_result
    [OF p1, where gm = summary_model and ainvoke = "\<lambda>request. Inr summary_reply"
      and ?m0.0 = question and ms = "[]" and response = summary_reply and jd = demo_dumps]
    t(1) g m(1)
  have a: "raised (extract_node demo_dumps summary_model one_search_state) = None
      \<and> search_result (steps (final (extract_node demo_dumps summary_model one_search_state)) ! 1)
          = None"
    by simp
  from extract_node_discards_search_result
    [OF p2, where gm = summary_model and ainvoke = "\<lambda>request. Inr summary_reply"
      and ?m0.0 = question and ms = "[]" and response = summary_reply and jd = demo_dumps]
    t(2) g m(2)
  have b: "raised (extract_node demo_dumps summary_model fresh_state) = None
      \<and> search_result (steps (final (extract_node demo_dumps summary_model fresh_state)) ! 1)
          = None"
    by simp
  from p1 p2 before a b show ?thesis by simp
qed

text \<open>
  C9.  The first pending step alone decides: when its type is not "search",
  \<open>extract_node\<close> raises a \<open>ValueError\<close> and changes nothing, whatever steps follow it,
  a pending search step included.
\<close>

theorem extract_node_first_pending_decides:
  assumes "first_pending (steps st) = Some i"
    and "step_type (steps st ! i) \<noteq> Some ''search''"
  shows "raised (extract_node jd gm st)
           = Some (ValueError ''The current step is not a search step'')
         \<and> final (extract_node jd gm st) = st"
  using assms by (simp add: extract_node_def Let_def)

theorem extract_node_first_pending_decides_witness:
  "first_pending (steps blocked_state) = Some 1
   \<and> step_type (steps blocked_state ! 1) = Some ''generate''
   \<and> status (steps blocked_state ! 2) = ''pending''
   \<and> step_type (steps blocked_state ! 2) = Some ''search''
   \<and> raised (extract_node demo_dumps summary_model blocked_state)
       = Some (ValueError ''The current step is not a search step'')
   \<and> final (extract_node demo_dumps summary_model blocked_state) = blocked_state"
proof -
  have h1: "first_pending (steps blocked_state) = Some 1"
    by (rule first_pending_examples)
  have t: "step_type (steps blocked_state ! 1) = Some ''generate''"
    by (simp add: blocked_state_def write_step_def)
  then have h2: "step_type (steps blocked_state ! 1) \<noteq> Some ''search''"
    by simp
  have l: "status (steps blocked_state ! 2) = ''pending''
           \<and> step_type (steps blocked_state ! 2) = Some ''search''"
    by (simp add: blocked_state_def search_step_def)
  from extract_node_first_pending_decides [OF h1 h2, of demo_dumps summary_model] h1 t l
  show ?thesis by simp
qed

text \<open>
  C10.  On every run of \<open>extract_node\<close> that returns, the state differs from the one
  given in its steps only, and the list of steps keeps its length.  The first pending
  step keeps its id and type and gets a result, no \<open>search_result\<close>, the status
  "complete" and its log with "Done." appended.  The first pending step behind it, if
  there is one, changes in its log only, which becomes the single entry
  "Searching the web...".  Every other step is as before.
\<close>

theorem extract_node_frame:
  assumes "raised (extract_node jd gm st) = None"
    and "first_pending (steps st) = Some i"
  shows "final (extract_node jd gm st) = st\<lparr>steps := steps (final (extract_node jd gm st))\<rparr>
         \<and> messages (final (extract_node jd gm st)) = messages st
         \<and> length (steps (final (extract_node jd gm st))) = length (steps st)
         \<and> (\<exists>r. steps (final (extract_node jd gm st)) ! i =
                  (steps st ! i)
                    \<lparr>result := Some r, search_result := None, status := ''complete'',
                     updates := Some ((case updates (steps st ! i) of None \<Rightarrow> [] | Some us \<Rightarrow> us)
                                       @ [''Done.''])\<rparr>)
         \<and> (\<forall>j. pending_after (steps st) i j \<longrightarrow>
               steps (final (extract_node jd gm st)) ! j =
                 (steps st ! j)\<lparr>updates := Some [''Searching the web...'']\<rparr>)
         \<and> (\<forall>k < length (steps st). k \<noteq> i \<and> \<not> pending_after (steps st) i k \<longrightarrow>
               steps (final (extract_node jd gm st)) ! k = steps st ! k)"
proof -
  from extract_node_returns [OF assms(1)] assms(2)
  obtain ainvoke m0 ms response where
    h: "step_type (steps st ! i) = Some ''search''" "gm = Inr ainvoke"
       "messages st = m0 # ms"
       "ainvoke [m0, HumanMessage (system_message jd (steps st ! i))] = Inr response"
    by auto
  note run = extract_node_success [OF assms(2) h]
  note nth = extract_node_steps [OF assms(2) h]
  from assms(2) have i: "i < length (steps st)"
    by (simp add: first_pending_Some_iff)
  have a: "final (extract_node jd gm st) = st\<lparr>steps := steps (final (extract_node jd gm st))\<rparr>"
    by (simp add: run)
  have b: "messages (final (extract_node jd gm st)) = messages st"
    by (simp add: run)
  have c: "length (steps (final (extract_node jd gm st))) = length (steps st)"
    by (simp add: run length_mark_next)
  have "steps (final (extract_node jd gm st)) ! i =
          (steps st ! i)
            \<lparr>result := Some (content response), search_result := None, status := ''complete'',
             updates := Some ((case updates (steps st ! i) of None \<Rightarrow> [] | Some us \<Rightarrow> us)
                               @ [''Done.''])\<rparr>"
    by (simp add: nth [OF i] complete_step_def)
  then have d: "\<exists>r. steps (final (extract_node jd gm st)) ! i =
          (steps st ! i)
            \<lparr>result := Some r, search_result := None, status := ''complete'',
             updates := Some ((case updates (steps st ! i) of None \<Rightarrow> [] | Some us \<Rightarrow> us)
                               @ [''Done.''])\<rparr>"
    by blast
  have e: "steps (final (extract_node jd gm st)) ! j =
             (steps st ! j)\<lparr>updates := Some [''Searching the web...'']\<rparr>"
    if p: "pending_after (steps st) i j" for j
  proof -
    from p have "j < length (steps st)" and "j \<noteq> i"
      by (simp_all add: pending_after_def)
    then show ?thesis using p by (simp add: nth)
  qed
  have f: "steps (final (extract_node jd gm st)) ! k = steps st ! k"
    if "k < length (steps st)" "k \<noteq> i" "\<not> pending_after (steps st) i k" for k
    using that by (simp add: nth)
  from a b c d e f show ?thesis by blast
qed

theorem extract_node_frame_witness:
  "raised (extract_node demo_dumps summary_model three_pending_state) = None
   \<and> first_pending (steps three_pending_state) = Some 1
   \<and> pending_after (steps three_pending_state) 1 2
   \<and> messages (final (extract_node demo_dumps summary_model three_pending_state)) = [question]
   \<and> steps (final (extract_node demo_dumps summary_model three_pending_state)) ! 0 = done_step
   \<and> steps (final (extract_node demo_dumps summary_model three_pending_state)) ! 2
       = queued_step\<lparr>updates := Some [''Searching the web...'']\<rparr>
   \<and> steps (final (extract_node demo_dumps summary_model three_pending_state)) ! 3 = write_step"
proof -
  have h1: "raised (extract_node demo_dumps summary_model three_pending_state) = None"
    by (simp add: run_three_pending)
  have h2: "first_pending (steps three_pending_state) = Some 1"
    by (rule first_pending_examples)
  have n: "\<not> pending_after (steps three_pending_state) 1 0"
      "\<not> pending_after (steps three_pending_state) 1 3"
    by (simp_all add: pending_after_def three_pending_state_def queued_step_def)
  have s: "steps three_pending_state = [done_step, search_step, queued_step, write_step]"
      "messages three_pending_state = [question]"
    by (simp_all add: three_pending_state_def)
  from extract_node_frame [OF h1 h2] have
    "messages (final (extract_node demo_dumps summary_model three_pending_state)) = [question]"
    "steps (final (extract_node demo_dumps summary_model three_pending_state)) ! 0 = done_step"
    "steps (final (extract_node demo_dumps summary_model three_pending_state)) ! 2
       = queued_step\<lparr>updates := Some [''Searching the web...'']\<rparr>"
    "steps (final (extract_node demo_dumps summary_model three_pending_state)) ! 3 = write_step"
    using n pending_after_three by (simp_all add: s)
  with h1 h2 pending_after_three show ?thesis by simp
qed

section \<open>Properties of the translator\<close>

text \<open>
  C1, as the code has it.  On a state object that offers its messages as an attribute,
  and with a supported value of \<open>MODEL\<close>, \<open>translate_node\<close> calls the model exactly
  once, with the tool "Translations" bound.  The tool choice is left to the model
  (\<open>None\<close>) when the message list is non-empty and ends in a human message; in every
  other case, the empty list included, the tool "Translations" is forced.
\<close>

theorem translate_node_tool_choice:
  assumes "get_model env = Inr m"
  shows "calls (translate_node AttrDict env ainvoke st) =
           [\<lparr>model =
               \<lparr>base = m, tools = [''Translations''],
                tool_choice =
                  (if messages st \<noteq> [] \<and> is_HumanMessage (last (messages st)) then None
                   else Some ''Translations'')\<rparr>,
             sent = filtered_messages (messages st) (new_message (input st))\<rparr>]"
  by (simp add: translate_node_calls [OF assms] bind_tools_def)

theorem translate_node_tool_choice_witness:
  "get_model None = Inr (ChatOpenAI 0 OPENAI_MODEL)
   \<and> \<not> is_HumanMessage (last (messages ai_last_state))
   \<and> calls (translate_node AttrDict None plain_model ai_last_state) =
       [\<lparr>model = \<lparr>base = ChatOpenAI 0 OPENAI_MODEL, tools = [''Translations''],
                  tool_choice = Some ''Translations''\<rparr>,
         sent = filtered_messages (messages ai_last_state) (new_message (input ai_last_state))\<rparr>]"
proof -
  have l: "\<not> is_HumanMessage (last (messages ai_last_state))"
    by (simp add: ai_last_state_def)
  from translate_node_tool_choice [OF get_model_unset, of plain_model ai_last_state] l
  show ?thesis by (simp add: get_model_unset)
qed

text \<open>
  C1 as it is written fails for a message list that ends in a human message.  On the
  plain dict the graph passes, the node raises \<open>AttributeError\<close> and the model is not
  invoked at all.  On an object that offers its messages as an attribute, the tool
  choice sent to the model is \<open>None\<close>, not the forced tool.
\<close>

theorem translate_node_tool_choice_counterexample:
  "messages human_last_state \<noteq> []
   \<and> is_HumanMessage (last (messages human_last_state))
   \<and> raised (translate_node Dict None plain_model human_last_state)
       = Some (AttributeError (no_attribute ''messages''))
   \<and> calls (translate_node Dict None plain_model human_last_state) = []
   \<and> calls (translate_node AttrDict None plain_model human_last_state) =
       [\<lparr>model = \<lparr>base = ChatOpenAI 0 OPENAI_MODEL, tools = [''Translations''],
                  tool_choice = None\<rparr>,
         sent = filtered_messages (messages human_last_state)
                  (new_message (input human_last_state))\<rparr>]"
  by (simp add: translate_node_dict [OF get_model_unset]
      translate_node_calls [OF get_model_unset] bind_tools_def)
    (simp add: human_last_state_def)

text \<open>
  C4.  The state the graph passes is a plain dict.  With \<open>MODEL\<close> unset, the messages
  \<open>[HumanMessage "Hello"]\<close>, the input "Hello", and a model that would answer with a
  tool call holding the three translations, \<open>translate_node\<close> raises
  \<open>AttributeError\<close> at \<open>state.messages\<close>: the model is not invoked, no state is
  returned, the translations are still \<open>None\<close> and the input is still "Hello".
\<close>

theorem translate_node_tool_call_dict:
  "response_tool_calls tool_reply = [hello_call]
   \<and> args hello_call = Some hello_payload
   \<and> hello_payload ''translation_es'' = Some ''Hola''
   \<and> hello_payload ''translation_fr'' = Some ''Bonjour''
   \<and> hello_payload ''translation_de'' = Some ''Hallo''
   \<and> raised (translate_node Dict None tool_model human_last_state)
       = Some (AttributeError (no_attribute ''messages''))
   \<and> calls (translate_node Dict None tool_model human_last_state) = []
   \<and> state_translations (final (translate_node Dict None tool_model human_last_state)) = None
   \<and> input (final (translate_node Dict None tool_model human_last_state)) = Some ''Hello''"
  by (simp add: translate_node_dict [OF get_model_unset] tool_reply_def hello_call_def
      hello_payload_def human_last_state_def)

text \<open>
  C5.  On the plain dict the graph passes, with \<open>MODEL\<close> unset, two messages in the
  state and a model that would answer without a tool call, \<open>translate_node\<close> raises
  \<open>AttributeError\<close> at \<open>state.messages\<close>: the model is not invoked, and the
  messages of the state are the two it had, with neither a request nor an answer added.
\<close>

theorem translate_node_no_tool_call_dict:
  "response_tool_calls plain_reply = []
   \<and> raised (translate_node Dict None plain_model ai_last_state)
       = Some (AttributeError (no_attribute ''messages''))
   \<and> calls (translate_node Dict None plain_model ai_last_state) = []
   \<and> messages (final (translate_node Dict None plain_model ai_last_state))
       = [HumanMessage ''Hello'', AIMessage ''Which languages?'' []]"
  by (simp add: translate_node_dict [OF get_model_unset] plain_reply_def ai_last_state_def)

text \<open>
  C6.  A value of \<open>MODEL\<close> that is neither "openai" nor "anthropic" once lowercased
  makes \<open>get_model\<close> raise a \<open>ValueError\<close>; \<open>translate_node\<close> then raises it too,
  whatever the state object is, having called no model and changed nothing.  With
  \<open>MODEL\<close> unset, \<open>get_model\<close> returns the OpenAI client.
\<close>

theorem get_model_unsupported:
  "(lower v \<noteq> ''openai'' \<and> lower v \<noteq> ''anthropic'' \<longrightarrow>
      get_model (Some v) = Inl (ValueError (''Invalid model specified: '' @ lower v))
      \<and> raised (translate_node cls (Some v) ainvoke st)
          = Some (ValueError (''Invalid model specified: '' @ lower v))
      \<and> calls (translate_node cls (Some v) ainvoke st) = []
      \<and> final (translate_node cls (Some v) ainvoke st) = st)
   \<and> get_model None = Inr (ChatOpenAI 0 OPENAI_MODEL)"
  by (simp add: get_model_def translate_node_def DEFAULT_MODEL_def lower_def lower_char_def)

theorem get_model_unsupported_witness:
  "lower ''Gemini'' = ''gemini''
   \<and> get_model (Some ''Gemini'') = Inl (ValueError ''Invalid model specified: gemini'')
   \<and> raised (translate_node Dict (Some ''Gemini'') tool_model human_last_state)
       = Some (ValueError ''Invalid model specified: gemini'')
   \<and> calls (translate_node Dict (Some ''Gemini'') tool_model human_last_state) = []
   \<and> get_model None = Inr (ChatOpenAI 0 OPENAI_MODEL)"
  using get_model_unsupported [of "''Gemini''" Dict tool_model human_last_state]
  by (simp add: get_model_examples)

text \<open>
  C8.  On the plain dict the graph passes, with \<open>MODEL\<close> set to "Anthropic" and a
  conversation of a system message, a human message and three AI messages,
  \<open>translate_node\<close> raises \<open>AttributeError\<close> at \<open>state.messages\<close>: no message
  sequence is sent to the model, filtered or not.
\<close>

theorem translate_node_sent_messages_dict:
  "get_model (Some ''Anthropic'') = Inr (ChatAnthropic 0 ANTHROPIC_MODEL None None)
   \<and> raised (translate_node Dict (Some ''Anthropic'') plain_model mixed_state)
       = Some (AttributeError (no_attribute ''messages''))
   \<and> calls (translate_node Dict (Some ''Anthropic'') plain_model mixed_state) = []
   \<and> final (translate_node Dict (Some ''Anthropic'') plain_model mixed_state) = mixed_state"
  by (simp add: translate_node_dict [OF get_model_examples(2)] get_model_examples)

end
